theory Spec2Isabelle
  imports Main
begin

section \<open>JavaScript values and errors\<close>

text \<open>
  The gateway handles values decoded from JSON. A number is represented by its
  \<open>String()\<close> rendering (the only thing the gateway does with a decoded number is to
  interpolate it into a template literal or to test its truthiness), an object by the list of
  its own properties.
\<close>

datatype jsval =
    JUndefined
  | JNull
  | JBool bool
  | JNum string
  | JStr string
  | JArr "jsval list"
  | JObj "(string \<times> jsval) list"

record http_response =
  status :: int
  data :: jsval

text \<open>
  An error object: \<open>message\<close>, the optional \<open>response\<close> property that axios attaches
  when the server answered, and whether a \<open>request\<close> property is present. \<open>new Error(m)\<close>
  has neither property.
\<close>

record js_error =
  message :: string
  response :: "http_response option"
  request :: bool

definition new_Error :: "string \<Rightarrow> js_error" where
  "new_Error m = \<lparr>message = m, response = None, request = False\<rparr>"

definition TypeError :: "string \<Rightarrow> js_error" where
  "TypeError m = new_Error m"

definition SyntaxError :: "string \<Rightarrow> js_error" where
  "SyntaxError m = new_Error m"

text \<open>Truthiness, as tested by \<open>x ? a : b\<close>, \<open>!x\<close> and \<open>x || y\<close>.\<close>

fun truthy :: "jsval \<Rightarrow> bool" where
  "truthy JUndefined = False"
| "truthy JNull = False"
| "truthy (JBool b) = b"
| "truthy (JNum s) = (s \<noteq> ''0'' \<and> s \<noteq> ''NaN'')"
| "truthy (JStr s) = (s \<noteq> [])"
| "truthy (JArr xs) = True"
| "truthy (JObj ps) = True"

definition js_or :: "jsval \<Rightarrow> jsval \<Rightarrow> jsval" where
  "js_or a b = (if truthy a then a else b)"

text \<open>
  Reading one of the properties the gateway reads (\<open>type\<close>, \<open>data\<close>, \<open>channel\<close>,
  \<open>symbol\<close>, \<open>event\<close>, \<open>message\<close>, \<open>error\<close>), by member access or by destructuring:
  \<open>undefined\<close> and \<open>null\<close> throw a TypeError, an object yields its own property or
  \<open>undefined\<close>, every other value yields \<open>undefined\<close>.
\<close>

fun get_prop :: "jsval \<Rightarrow> string \<Rightarrow> js_error + jsval" where
  "get_prop JUndefined k = Inl (TypeError (''Cannot read properties of undefined (reading '' @ k @ '')''))"
| "get_prop JNull k = Inl (TypeError (''Cannot read properties of null (reading '' @ k @ '')''))"
| "get_prop (JObj ps) k = Inr (case map_of ps k of None \<Rightarrow> JUndefined | Some v \<Rightarrow> v)"
| "get_prop v k = Inr JUndefined"

text \<open>
  String conversion in a template literal. An object decoded from JSON converts to
  \<open>[object Object]\<close> unless it has an own property \<open>toString\<close>, which cannot be callable:
  then the conversion throws. An array joins the conversions of its elements with commas,
  \<open>undefined\<close> and \<open>null\<close> elements giving the empty string.
\<close>

fun toString :: "jsval \<Rightarrow> js_error + string"
  and join_elems :: "jsval list \<Rightarrow> js_error + string" where
  "toString JUndefined = Inr ''undefined''"
| "toString JNull = Inr ''null''"
| "toString (JBool b) = Inr (if b then ''true'' else ''false'')"
| "toString (JNum s) = Inr s"
| "toString (JStr s) = Inr s"
| "toString (JArr xs) = join_elems xs"
| "toString (JObj ps) =
     (if ''toString'' \<in> fst ` set ps
      then Inl (TypeError ''Cannot convert object to primitive value'')
      else Inr ''[object Object]'')"
| "join_elems [] = Inr []"
| "join_elems (x # xs) =
     (case (if x = JUndefined \<or> x = JNull then Inr [] else toString x) of
        Inl e \<Rightarrow> Inl e
      | Inr s \<Rightarrow>
          (if xs = [] then Inr s
           else (case join_elems xs of Inl e \<Rightarrow> Inl e | Inr r \<Rightarrow> Inr (s @ '','' @ r))))"

text \<open>Decimal rendering of an integer (HTTP status codes, millisecond timestamps).\<close>

definition digit_char :: "nat \<Rightarrow> char" where
  "digit_char d = ''0123456789'' ! d"

fun string_of_nat :: "nat \<Rightarrow> string" where
  "string_of_nat n =
     (if n < 10 then [digit_char n]
      else string_of_nat (n div 10) @ [digit_char (n mod 10)])"

declare string_of_nat.simps [simp del]

definition string_of_int :: "int \<Rightarrow> string" where
  "string_of_int i = (if i < 0 then CHR ''-'' # string_of_nat (nat (- i)) else string_of_nat (nat i))"

text \<open>\<open>toUpperCase\<close> and \<open>toLowerCase\<close> on the ASCII letters.\<close>

definition toUpperChar :: "char \<Rightarrow> char" where
  "toUpperChar c =
     (if (97::nat) \<le> of_char c \<and> of_char c \<le> (122::nat) then char_of (of_char c - (32::nat)) else c)"

definition toLowerChar :: "char \<Rightarrow> char" where
  "toLowerChar c =
     (if (65::nat) \<le> of_char c \<and> of_char c \<le> (90::nat) then char_of (of_char c + (32::nat)) else c)"

definition toUpperCase :: "string \<Rightarrow> string" where
  "toUpperCase s = map toUpperChar s"

definition toLowerCase :: "string \<Rightarrow> string" where
  "toLowerCase s = map toLowerChar s"

section \<open>PionexClient: the signed REST executor\<close>

text \<open>\<open>options.x || d\<close> in the constructor: an absent or zero option takes the default.\<close>

definition or_default :: "int option \<Rightarrow> int \<Rightarrow> int" where
  "or_default v d = (case v of None \<Rightarrow> d | Some n \<Rightarrow> if n = 0 then d else n)"

record options =
  opt_maxRetries :: "int option"
  opt_retryDelay :: "int option"
  opt_backoffMultiplier :: "int option"
  opt_maxReconnectAttempts :: "int option"
  opt_reconnectDelay :: "int option"

definition no_options :: options where
  "no_options = \<lparr>opt_maxRetries = None, opt_retryDelay = None, opt_backoffMultiplier = None,
     opt_maxReconnectAttempts = None, opt_reconnectDelay = None\<rparr>"

record config =
  apiKey :: string
  secretKey :: string
  maxRetries :: int
  retryDelay :: int
  backoffMultiplier :: int
  maxReconnectAttempts :: int
  reconnectDelay :: int

definition PionexClient :: "string \<Rightarrow> string \<Rightarrow> options \<Rightarrow> config" where
  "PionexClient key secret opts =
     \<lparr>apiKey = key, secretKey = secret,
      maxRetries = or_default (opt_maxRetries opts) 3,
      retryDelay = or_default (opt_retryDelay opts) 1000,
      backoffMultiplier = or_default (opt_backoffMultiplier opts) 2,
      maxReconnectAttempts = or_default (opt_maxReconnectAttempts opts) 5,
      reconnectDelay = or_default (opt_reconnectDelay opts) 5000\<rparr>"

text \<open>
  What the platform provides: \<open>JSON.stringify\<close>, \<open>JSON.parse\<close> (\<open>Inl\<close> when it
  throws), the hex digest of
  \<open>crypto.createHmac('sha256', key).update(msg)\<close>, \<open>Date.now()\<close> at the k-th use of the
  HTTP client, and what axios settles the k-th transmission with, before the response
  interceptors run.
\<close>

datatype axios_outcome = Fulfilled http_response | Rejected js_error

record env =
  JSON_stringify :: "jsval \<Rightarrow> string"
  hmac_sha256_hex :: "string \<Rightarrow> string \<Rightarrow> string"
  JSON_parse :: "string \<Rightarrow> js_error + jsval"
  Date_now :: "nat \<Rightarrow> int"
  transmit :: "nat \<Rightarrow> axios_outcome"

text \<open>The axios request configuration; \<open>http_method\<close> is its \<open>method\<close> property.\<close>

record request_config =
  http_method :: string
  url :: string
  body :: jsval
  requiresAuth :: "bool option"
  headers :: "(string \<times> string) list"

definition canonical_message :: "env \<Rightarrow> string \<Rightarrow> string \<Rightarrow> jsval \<Rightarrow> int \<Rightarrow> string" where
  "canonical_message E m u d timestamp =
     toUpperCase m @ u @ (if truthy d then JSON_stringify E d else []) @ string_of_int timestamp"

definition generateSignature :: "env \<Rightarrow> config \<Rightarrow> string \<Rightarrow> string \<Rightarrow> jsval \<Rightarrow> int \<Rightarrow> string" where
  "generateSignature E c m u d timestamp =
     hmac_sha256_hex E (secretKey c) (canonical_message E m u d timestamp)"

definition set_header :: "string \<Rightarrow> string \<Rightarrow> (string \<times> string) list \<Rightarrow> (string \<times> string) list" where
  "set_header k v hs = filter (\<lambda>p. fst p \<noteq> k) hs @ [(k, v)]"

text \<open>The request interceptor; \<open>timestamp\<close> is \<open>Date.now()\<close> when it runs.\<close>

definition request_interceptor :: "env \<Rightarrow> config \<Rightarrow> int \<Rightarrow> request_config \<Rightarrow> request_config" where
  "request_interceptor E c timestamp cfg =
     (if requiresAuth cfg \<noteq> Some False then
        cfg\<lparr>headers :=
          set_header ''PIONEX-TIMESTAMP'' (string_of_int timestamp)
            (set_header ''PIONEX-SIGNATURE''
               (generateSignature E c (http_method cfg) (url cfg) (body cfg) timestamp)
               (set_header ''PIONEX-KEY'' (apiKey c) (headers cfg)))\<rparr>
      else cfg)"

text \<open>
  \<open>handleHttpError\<close>: \<open>Inr\<close> is the error it returns, \<open>Inl\<close> one thrown while building
  it (a response whose body is \<open>null\<close>).
\<close>

definition handleHttpError :: "js_error \<Rightarrow> js_error + js_error" where
  "handleHttpError error =
     (case response error of
        Some r \<Rightarrow>
          (case get_prop (data r) ''message'' of
             Inl e \<Rightarrow> Inl e
           | Inr m \<Rightarrow>
               (if truthy m then
                  (case toString m of
                     Inl e \<Rightarrow> Inl e
                   | Inr s \<Rightarrow> Inr (new_Error (''Pionex API Error ('' @ string_of_int (status r) @ ''): '' @ s)))
                else
                  (case get_prop (data r) ''error'' of
                     Inl e \<Rightarrow> Inl e
                   | Inr er \<Rightarrow>
                       (case toString (js_or er (JStr ''Unknown error'')) of
                          Inl e \<Rightarrow> Inl e
                        | Inr s \<Rightarrow> Inr (new_Error (''Pionex API Error ('' @ string_of_int (status r) @ ''): '' @ s))))))
      | None \<Rightarrow>
          (if request error then Inr (new_Error ''Pionex API Error: No response received from server'')
           else Inr (new_Error (''Pionex API Error: '' @ message error))))"

text \<open>The response interceptor: a rejection is replaced by the error \<open>handleHttpError\<close> gives.\<close>

definition response_interceptor :: "axios_outcome \<Rightarrow> js_error + http_response" where
  "response_interceptor out =
     (case out of
        Fulfilled r \<Rightarrow> Inr r
      | Rejected error \<Rightarrow>
          (case handleHttpError error of Inl thrown \<Rightarrow> Inl thrown | Inr customError \<Rightarrow> Inl customError))"

text \<open>The request as transmitted at the k-th use of the HTTP client, and how that use settles.\<close>

definition sent_request :: "env \<Rightarrow> config \<Rightarrow> request_config \<Rightarrow> nat \<Rightarrow> request_config" where
  "sent_request E c cfg k = request_interceptor E c (Date_now E k) cfg"

definition httpClient :: "env \<Rightarrow> config \<Rightarrow> request_config \<Rightarrow> nat \<Rightarrow> js_error + http_response" where
  "httpClient E c cfg k = response_interceptor (transmit E k)"

definition isRetryableError :: "js_error \<Rightarrow> bool" where
  "isRetryableError error =
     (case response error of
        None \<Rightarrow> True
      | Some r \<Rightarrow> status r \<ge> 500 \<or> status r = 429)"

text \<open>
  \<open>executeWithRetry\<close>. \<open>requestFn k\<close> is how the k-th invocation of the request function
  settles (counting from 0); the state counts the invocations and records, in order, each
  attempt and each \<open>sleep\<close>. \<open>attempt\<close> starts at 1 (its default, which \<open>makeRequest\<close>
  uses) and only grows, so the exponent \<open>attempt - 1\<close> is a natural number.
\<close>

datatype event = Attempt int | Sleep int

record exec_state =
  calls :: nat
  trace :: "event list"

definition exec_init :: exec_state where
  "exec_init = \<lparr>calls = 0, trace = []\<rparr>"

definition invoke :: "int \<Rightarrow> exec_state \<Rightarrow> exec_state" where
  "invoke attempt s = \<lparr>calls = Suc (calls s), trace = trace s @ [Attempt attempt]\<rparr>"

definition sleep :: "int \<Rightarrow> exec_state \<Rightarrow> exec_state" where
  "sleep ms s = s\<lparr>trace := trace s @ [Sleep ms]\<rparr>"

function executeWithRetry ::
  "config \<Rightarrow> (nat \<Rightarrow> js_error + http_response) \<Rightarrow> int \<Rightarrow> exec_state \<Rightarrow> (js_error + jsval) \<times> exec_state" where
  "executeWithRetry c requestFn attempt s =
     (case requestFn (calls s) of
        Inr resp \<Rightarrow> (Inr (data resp), invoke attempt s)
      | Inl error \<Rightarrow>
          (if attempt \<ge> maxRetries c then (Inl error, invoke attempt s)
           else if isRetryableError error then
             executeWithRetry c requestFn (attempt + 1)
               (sleep (retryDelay c * backoffMultiplier c ^ nat (attempt - 1)) (invoke attempt s))
           else (Inl error, invoke attempt s)))"
  by pat_completeness auto
termination
  by (relation "measure (\<lambda>(c, requestFn, attempt, s). nat (maxRetries c - attempt))") auto

declare executeWithRetry.simps [simp del]

definition makeRequest :: "env \<Rightarrow> config \<Rightarrow> request_config \<Rightarrow> (js_error + jsval) \<times> exec_state" where
  "makeRequest E c cfg = executeWithRetry c (httpClient E c cfg) 1 exec_init"

section \<open>PionexClient: the stream connection\<close>

datatype ready_state = CONNECTING | OPEN | CLOSING | CLOSED

text \<open>The object whose \<open>JSON.stringify\<close> is written to the exchange socket.\<close>

record frame =
  frame_method :: string
  params :: "string list"
  frame_id :: int

record exchange_socket =
  x_readyState :: ready_state
  x_sent :: "frame list"

text \<open>What \<open>this.emit\<close> is called with: an event name and a payload.\<close>

datatype emitted = Emit string jsval | EmitError string js_error

text \<open>
  The connection state: \<open>this.ws\<close> (\<open>None\<close> is \<open>null\<close>), the attempt counter, the
  events emitted so far and the delays of the \<open>setTimeout\<close> calls made so far, each of
  which arms one call of \<open>connectWebSocket\<close>.
\<close>

record stream =
  ws :: "exchange_socket option"
  wsReconnectAttempts :: int
  emits :: "emitted list"
  scheduled :: "int list"

definition stream_init :: stream where
  "stream_init = \<lparr>ws = None, wsReconnectAttempts = 0, emits = [], scheduled = []\<rparr>"

definition emit :: "emitted \<Rightarrow> stream \<Rightarrow> stream" where
  "emit e s = s\<lparr>emits := emits s @ [e]\<rparr>"

definition is_open :: "stream \<Rightarrow> bool" where
  "is_open s = (case ws s of None \<Rightarrow> False | Some sock \<Rightarrow> x_readyState sock = OPEN)"

definition connectWebSocket :: "stream \<Rightarrow> stream" where
  "connectWebSocket s =
     (if is_open s then s
      else s\<lparr>ws := Some \<lparr>x_readyState = CONNECTING, x_sent = []\<rparr>\<rparr>)"

definition handleWebSocketReconnect :: "config \<Rightarrow> stream \<Rightarrow> stream" where
  "handleWebSocketReconnect c s =
     (if wsReconnectAttempts s \<ge> maxReconnectAttempts c then emit (Emit ''wsReconnectFailed'' JUndefined) s
      else s\<lparr>wsReconnectAttempts := wsReconnectAttempts s + 1,
             scheduled := scheduled s @ [reconnectDelay c * (wsReconnectAttempts s + 1)]\<rparr>)"

definition set_readyState :: "ready_state \<Rightarrow> stream \<Rightarrow> stream" where
  "set_readyState r s = s\<lparr>ws := map_option (\<lambda>sock. sock\<lparr>x_readyState := r\<rparr>) (ws s)\<rparr>"

text \<open>The handlers registered in \<open>connectWebSocket\<close>, for the events of the current socket;
  the socket is in its new state when the \<open>open\<close> and \<open>close\<close> handlers run.\<close>

definition on_open :: "stream \<Rightarrow> stream" where
  "on_open s = emit (Emit ''wsConnected'' JUndefined) ((set_readyState OPEN s)\<lparr>wsReconnectAttempts := 0\<rparr>)"

definition on_error :: "js_error \<Rightarrow> stream \<Rightarrow> stream" where
  "on_error error s = emit (EmitError ''wsError'' error) s"

definition on_close :: "config \<Rightarrow> jsval \<Rightarrow> jsval \<Rightarrow> stream \<Rightarrow> stream" where
  "on_close c code reason s =
     handleWebSocketReconnect c
       (emit (Emit ''wsDisconnected'' (JObj [(''code'', code), (''reason'', reason)]))
          (set_readyState CLOSED s))"

text \<open>\<open>handleWebSocketMessage\<close> of the client: \<open>Inl\<close> when destructuring the message throws.\<close>

definition pionex_handleWebSocketMessage :: "jsval \<Rightarrow> stream \<Rightarrow> js_error + stream" where
  "pionex_handleWebSocketMessage msg s =
     (case get_prop msg ''event'' of
        Inl e \<Rightarrow> Inl e
      | Inr ev \<Rightarrow>
          (case get_prop msg ''data'' of
             Inl e \<Rightarrow> Inl e
           | Inr d \<Rightarrow>
               (case get_prop msg ''symbol'' of
                  Inl e \<Rightarrow> Inl e
                | Inr symb \<Rightarrow>
                    (if ev = JStr ''ticker'' then Inr (emit (Emit ''ticker'' (JObj [(''symbol'', symb), (''data'', d)])) s)
                     else if ev = JStr ''kline'' then Inr (emit (Emit ''kline'' (JObj [(''symbol'', symb), (''data'', d)])) s)
                     else if ev = JStr ''orderUpdate'' then Inr (emit (Emit ''orderUpdate'' d) s)
                     else if ev = JStr ''balanceUpdate'' then Inr (emit (Emit ''balanceUpdate'' d) s)
                     else Inr (emit (Emit ''message'' msg) s)))))"

definition on_message :: "env \<Rightarrow> string \<Rightarrow> stream \<Rightarrow> stream" where
  "on_message E raw s =
     (case JSON_parse E raw of
        Inl e \<Rightarrow> s
      | Inr msg \<Rightarrow> (case pionex_handleWebSocketMessage msg s of Inl e \<Rightarrow> s | Inr s' \<Rightarrow> s'))"

definition x_send :: "frame \<Rightarrow> stream \<Rightarrow> stream" where
  "x_send f s = s\<lparr>ws := map_option (\<lambda>sock. sock\<lparr>x_sent := x_sent sock @ [f]\<rparr>) (ws s)\<rparr>"

definition subscribeToTicker :: "int \<Rightarrow> string \<Rightarrow> stream \<Rightarrow> js_error + stream" where
  "subscribeToTicker now symbol s =
     (if \<not> is_open s then Inl (new_Error ''WebSocket not connected'')
      else Inr (x_send \<lparr>frame_method = ''SUBSCRIBE'',
                         params = [toLowerCase symbol @ ''@ticker''],
                         frame_id = now\<rparr> s))"

definition subscribeToKlines :: "int \<Rightarrow> string \<Rightarrow> string \<Rightarrow> stream \<Rightarrow> js_error + stream" where
  "subscribeToKlines now symbol interval s =
     (if \<not> is_open s then Inl (new_Error ''WebSocket not connected'')
      else Inr (x_send \<lparr>frame_method = ''SUBSCRIBE'',
                         params = [toLowerCase symbol @ ''@kline_'' @ interval],
                         frame_id = now\<rparr> s))"

text \<open>The argument of \<open>unsubscribe\<close>: an array of stream ids or a single one.\<close>

datatype streams = Many "string list" | One string

definition unsubscribe :: "int \<Rightarrow> streams \<Rightarrow> stream \<Rightarrow> js_error + stream" where
  "unsubscribe now streams s =
     (if \<not> is_open s then Inl (new_Error ''WebSocket not connected'')
      else Inr (x_send \<lparr>frame_method = ''UNSUBSCRIBE'',
                         params = (case streams of Many xs \<Rightarrow> xs | One x \<Rightarrow> [x]),
                         frame_id = now\<rparr> s))"

definition disconnectWebSocket :: "stream \<Rightarrow> stream" where
  "disconnectWebSocket s = (case ws s of None \<Rightarrow> s | Some sock \<Rightarrow> s\<lparr>ws := None\<rparr>)"

text \<open>
  Everything that acts on the connection state: the socket's events, the timer armed by
  \<open>handleWebSocketReconnect\<close>, and the client's public methods. A method that throws leaves
  the state as it was.
\<close>

datatype stream_event =
    EvOpen
  | EvMessage string
  | EvError js_error
  | EvClose jsval jsval
  | EvTimer
  | CallConnect
  | CallDisconnect
  | CallSubscribeToTicker int string
  | CallSubscribeToKlines int string string
  | CallUnsubscribe int streams

definition keep :: "stream \<Rightarrow> js_error + stream \<Rightarrow> stream" where
  "keep s r = (case r of Inl e \<Rightarrow> s | Inr s' \<Rightarrow> s')"

fun stream_step :: "env \<Rightarrow> config \<Rightarrow> stream_event \<Rightarrow> stream \<Rightarrow> stream" where
  "stream_step E c EvOpen s = on_open s"
| "stream_step E c (EvMessage raw) s = on_message E raw s"
| "stream_step E c (EvError error) s = on_error error s"
| "stream_step E c (EvClose code reason) s = on_close c code reason s"
| "stream_step E c EvTimer s = connectWebSocket s"
| "stream_step E c CallConnect s = connectWebSocket s"
| "stream_step E c CallDisconnect s = disconnectWebSocket s"
| "stream_step E c (CallSubscribeToTicker now symbol) s = keep s (subscribeToTicker now symbol s)"
| "stream_step E c (CallSubscribeToKlines now symbol interval) s = keep s (subscribeToKlines now symbol interval s)"
| "stream_step E c (CallUnsubscribe now streams) s = keep s (unsubscribe now streams s)"

fun stream_run :: "env \<Rightarrow> config \<Rightarrow> stream_event list \<Rightarrow> stream \<Rightarrow> stream" where
  "stream_run E c [] s = s"
| "stream_run E c (ev # evs) s = stream_run E c evs (stream_step E c ev s)"

section \<open>TradingServer: the subscription hub\<close>

text \<open>The object whose \<open>JSON.stringify\<close> is passed to a client socket's \<open>send\<close>.\<close>

datatype server_msg =
    MsgConnection string string string
  | MsgError string
  | MsgPong string
  | MsgSubscribed jsval jsval string
  | MsgUnsubscribed jsval jsval string
  | MsgData jsval jsval jsval string

text \<open>
  A JavaScript \<open>Set\<close> of strings: its elements in insertion order, without duplicates.
\<close>

definition set_add :: "string \<Rightarrow> string list \<Rightarrow> string list" where
  "set_add x xs = (if x \<in> set xs then xs else xs @ [x])"

definition set_delete :: "string \<Rightarrow> string list \<Rightarrow> string list" where
  "set_delete x xs = removeAll x xs"

definition set_has :: "string \<Rightarrow> string list \<Rightarrow> bool" where
  "set_has x xs = (x \<in> set xs)"

text \<open>
  A client socket with the properties the server adds to it: \<open>subscriptions\<close> is
  \<open>None\<close> until the first subscription creates the set; \<open>sent\<close> records the calls of
  \<open>ws.send\<close>.
\<close>

record client_ws =
  clientId :: string
  readyState :: ready_state
  subscriptions :: "string list option"
  sent :: "server_msg list"

definition ws_send :: "server_msg \<Rightarrow> client_ws \<Rightarrow> client_ws" where
  "ws_send m w = w\<lparr>sent := sent w @ [m]\<rparr>"

text \<open>The template literal \<open>`${channel}:${symbol}`\<close>.\<close>

definition subscription_key :: "jsval \<Rightarrow> jsval \<Rightarrow> js_error + string" where
  "subscription_key channel symbol =
     (case toString channel of
        Inl e \<Rightarrow> Inl e
      | Inr a \<Rightarrow> (case toString symbol of Inl e \<Rightarrow> Inl e | Inr b \<Rightarrow> Inr (a @ '':'' @ b)))"

text \<open>
  A handler returns the exception it throws, if any, with the socket as the handler has
  left it.
\<close>

definition handleSubscription :: "client_ws \<Rightarrow> jsval \<Rightarrow> js_error option \<times> client_ws" where
  "handleSubscription w d =
     (case get_prop d ''channel'' of
        Inl e \<Rightarrow> (Some e, w)
      | Inr channel \<Rightarrow>
          (case get_prop d ''symbol'' of
             Inl e \<Rightarrow> (Some e, w)
           | Inr symbol \<Rightarrow>
               (let w1 = (if subscriptions w = None then w\<lparr>subscriptions := Some []\<rparr> else w) in
                case subscription_key channel symbol of
                  Inl e \<Rightarrow> (Some e, w1)
                | Inr subscription \<Rightarrow>
                    (None,
                     ws_send (MsgSubscribed channel symbol subscription)
                       (w1\<lparr>subscriptions := map_option (set_add subscription) (subscriptions w1)\<rparr>)))))"

definition handleUnsubscription :: "client_ws \<Rightarrow> jsval \<Rightarrow> js_error option \<times> client_ws" where
  "handleUnsubscription w d =
     (case get_prop d ''channel'' of
        Inl e \<Rightarrow> (Some e, w)
      | Inr channel \<Rightarrow>
          (case get_prop d ''symbol'' of
             Inl e \<Rightarrow> (Some e, w)
           | Inr symbol \<Rightarrow>
               (case subscriptions w of
                  None \<Rightarrow> (None, w)
                | Some subs \<Rightarrow>
                    (case subscription_key channel symbol of
                       Inl e \<Rightarrow> (Some e, w)
                     | Inr subscription \<Rightarrow>
                         (None,
                          ws_send (MsgUnsubscribed channel symbol subscription)
                            (w\<lparr>subscriptions := Some (set_delete subscription subs)\<rparr>))))))"

text \<open>\<open>handleWebSocketMessage\<close> of the server; \<open>now\<close> is \<open>new Date().toISOString()\<close>.\<close>

definition handleWebSocketMessage :: "string \<Rightarrow> client_ws \<Rightarrow> jsval \<Rightarrow> js_error option \<times> client_ws" where
  "handleWebSocketMessage now w msg =
     (case get_prop msg ''type'' of
        Inl e \<Rightarrow> (Some e, w)
      | Inr type \<Rightarrow>
          (case get_prop msg ''data'' of
             Inl e \<Rightarrow> (Some e, w)
           | Inr d \<Rightarrow>
               (if type = JStr ''subscribe'' then handleSubscription w d
                else if type = JStr ''unsubscribe'' then handleUnsubscription w d
                else if type = JStr ''ping'' then (None, ws_send (MsgPong now) w)
                else (case toString type of
                        Inl e \<Rightarrow> (Some e, w)
                      | Inr t \<Rightarrow> (None, ws_send (MsgError (''Unknown message type: '' @ t)) w)))))"

text \<open>
  The \<open>message\<close> handler registered for a client socket: the exception that escapes it, if
  any, and the socket afterwards.
\<close>

definition client_on_message :: "env \<Rightarrow> string \<Rightarrow> client_ws \<Rightarrow> string \<Rightarrow> js_error option \<times> client_ws" where
  "client_on_message E now w raw =
     (case JSON_parse E raw of
        Inl error \<Rightarrow> (None, ws_send (MsgError ''Invalid JSON message'') w)
      | Inr d \<Rightarrow>
          (case handleWebSocketMessage now w d of
             (Some error, w') \<Rightarrow> (None, ws_send (MsgError ''Invalid JSON message'') w')
           | (None, w') \<Rightarrow> (None, w')))"

text \<open>
  The server: \<open>wsClients\<close>, a \<open>Set\<close> of socket objects (their identities, in insertion
  order), and the state of every socket object. A connection brings a new socket object,
  open, with nothing sent and no \<open>subscriptions\<close> property.
\<close>

record server =
  wsClients :: "nat list"
  sockets :: "nat \<Rightarrow> client_ws"

definition on_connection :: "string \<Rightarrow> string \<Rightarrow> nat \<Rightarrow> server \<Rightarrow> server" where
  "on_connection cid now r srv =
     \<lparr>wsClients = (if r \<in> set (wsClients srv) then wsClients srv else wsClients srv @ [r]),
      sockets = (sockets srv)(r :=
        ws_send (MsgConnection cid ''Connected to Trading System WebSocket'' now)
          \<lparr>clientId = cid, readyState = OPEN, subscriptions = None, sent = []\<rparr>)\<rparr>"

definition server_on_message :: "env \<Rightarrow> string \<Rightarrow> nat \<Rightarrow> string \<Rightarrow> server \<Rightarrow> js_error option \<times> server" where
  "server_on_message E now r raw srv =
     (case client_on_message E now (sockets srv r) raw of
        (x, w') \<Rightarrow> (x, srv\<lparr>sockets := (sockets srv)(r := w')\<rparr>))"

definition server_on_close :: "nat \<Rightarrow> server \<Rightarrow> server" where
  "server_on_close r srv =
     \<lparr>wsClients = removeAll r (wsClients srv),
      sockets = (sockets srv)(r := (sockets srv r)\<lparr>readyState := CLOSED\<rparr>)\<rparr>"

definition server_on_error :: "nat \<Rightarrow> server \<Rightarrow> server" where
  "server_on_error r srv = srv\<lparr>wsClients := removeAll r (wsClients srv)\<rparr>"

text \<open>The body of the \<open>forEach\<close> in \<open>broadcastToSubscribers\<close>, for one socket.\<close>

definition deliver :: "server_msg \<Rightarrow> string \<Rightarrow> client_ws \<Rightarrow> client_ws" where
  "deliver m subscription w =
     (if readyState w = OPEN \<and>
         (case subscriptions w of None \<Rightarrow> False | Some subs \<Rightarrow> set_has subscription subs)
      then ws_send m w else w)"

fun forEach :: "(client_ws \<Rightarrow> client_ws) \<Rightarrow> nat list \<Rightarrow> (nat \<Rightarrow> client_ws) \<Rightarrow> (nat \<Rightarrow> client_ws)" where
  "forEach f [] h = h"
| "forEach f (r # rs) h = forEach f rs (h(r := f (h r)))"

definition broadcastToSubscribers ::
  "string \<Rightarrow> jsval \<Rightarrow> jsval \<Rightarrow> jsval \<Rightarrow> server \<Rightarrow> js_error option \<times> server" where
  "broadcastToSubscribers now channel symbol d srv =
     (case subscription_key channel symbol of
        Inl e \<Rightarrow> (Some e, srv)
      | Inr subscription \<Rightarrow>
          (None, srv\<lparr>sockets :=
             forEach (deliver (MsgData channel symbol d now) subscription) (wsClients srv) (sockets srv)\<rparr>))"

section \<open>Example inputs\<close>

definition rejecting :: "int \<Rightarrow> string \<Rightarrow> env" where
  "rejecting st msg =
     \<lparr>JSON_stringify = (\<lambda>v. []), hmac_sha256_hex = (\<lambda>k m. []),
      JSON_parse = (\<lambda>s. Inl (SyntaxError ''Unexpected token'')),
      Date_now = (\<lambda>k. 1700000000000),
      transmit = (\<lambda>k. Rejected \<lparr>message = ''Request failed'',
        response = Some \<lparr>status = st, data = JObj [(''message'', JStr msg)]\<rparr>, request = True\<rparr>)\<rparr>"

definition default_client :: config where
  "default_client = PionexClient ''key'' ''secret'' no_options"

definition get_balances :: request_config where
  "get_balances = \<lparr>http_method = ''get'', url = ''/v1/account/balances'', body = JNull,
     requiresAuth = None, headers = []\<rparr>"

text \<open>The attempts and sleeps of a call that is retried from attempt \<open>a\<close> up to the last one.\<close>

definition retry_trace :: "config \<Rightarrow> int \<Rightarrow> event list" where
  "retry_trace c a = Attempt a #
     concat (map (\<lambda>k. [Sleep (retryDelay c * backoffMultiplier c ^ nat (k - 2)), Attempt k])
       [a + 1..maxRetries c])"

text \<open>Example inputs and auxiliary notions for the stream connection.\<close>

fun is_close :: "stream_event \<Rightarrow> bool" where
  "is_close (EvClose code reason) = True"
| "is_close ev = False"

definition reconnect_failed :: emitted where
  "reconnect_failed = Emit ''wsReconnectFailed'' JUndefined"

definition open_stream :: stream where
  "open_stream = \<lparr>ws = Some \<lparr>x_readyState = OPEN, x_sent = []\<rparr>, wsReconnectAttempts = 0,
     emits = [], scheduled = []\<rparr>"

definition five_failures :: "stream_event list" where
  "five_failures = concat (replicate 5 [EvError (new_Error ''connect ECONNREFUSED''), EvClose (JNum ''1006'') (JStr []), EvTimer])"

text \<open>Example inputs for the hub.\<close>

definition new_ws :: "string \<Rightarrow> client_ws" where
  "new_ws cid = \<lparr>clientId = cid, readyState = OPEN, subscriptions = None, sent = []\<rparr>"

definition ticker_of :: "string \<Rightarrow> jsval" where
  "ticker_of symbol = JObj [(''channel'', JStr ''ticker''), (''symbol'', JStr symbol)]"

definition parsing :: "jsval \<Rightarrow> env" where
  "parsing v = (rejecting 503 [])\<lparr>JSON_parse :=
     (\<lambda>raw. if raw = ''not json'' then Inl (SyntaxError ''Unexpected token'') else Inr v)\<rparr>"

text \<open>
  Three registered sessions: A, open and subscribed to \<open>ticker:BTCUSDT\<close>; B, open and
  subscribed to \<open>ticker:ETHUSDT\<close>; C, subscribed to \<open>ticker:BTCUSDT\<close>, whose socket is
  closing and which has not been removed yet.
\<close>

definition three_sessions :: server where
  "three_sessions =
     \<lparr>wsClients = [0, 1, 2],
      sockets = (\<lambda>r. new_ws ''none'')
        (0 := (new_ws ''A'')\<lparr>subscriptions := Some [''ticker:BTCUSDT'']\<rparr>,
         1 := (new_ws ''B'')\<lparr>subscriptions := Some [''ticker:ETHUSDT'']\<rparr>,
         2 := (new_ws ''C'')\<lparr>subscriptions := Some [''ticker:BTCUSDT''], readyState := CLOSING\<rparr>)\<rparr>"

definition one_session :: server where
  "one_session = \<lparr>wsClients = [0], sockets = (\<lambda>r. new_ws ''A'')\<rparr>"

text \<open>The message types that the server's handler dispatches on.\<close>

definition known_types :: "jsval set" where
  "known_types = {JStr ''subscribe'', JStr ''unsubscribe'', JStr ''ping''}"

text \<open>Example inputs for signing: stand-ins for the JSON printer and the digest that keep
  their arguments visible.\<close>

definition signing :: env where
  "signing = (rejecting 503 [])\<lparr>JSON_stringify := (\<lambda>v. ''<json>''),
     hmac_sha256_hex := (\<lambda>k m. ''hmac('' @ k @ '','' @ m @ '')'')\<rparr>"

definition cancel_order :: request_config where
  "cancel_order = \<lparr>http_method = ''delete'', url = ''/v1/trade/orders/42'',
     body = JObj [(''symbol'', JStr ''BTCUSDT'')], requiresAuth = None,
     headers = [(''Content-Type'', ''application/json'')]\<rparr>"

section \<open>The REST executor: retry behaviour\<close>

lemma get_prop_error: "get_prop v k = Inl e \<Longrightarrow> response e = None"
  by (cases v) (simp_all add: TypeError_def new_Error_def, auto)

lemma toString_error:
  "toString v = Inl e \<longrightarrow> response e = None"
  "join_elems vs = Inl e \<longrightarrow> response e = None"
proof (induction v and vs rule: toString_join_elems.induct)
  case (7 ps)
  show ?case by (auto simp: TypeError_def new_Error_def)
next
  case (9 x xs)
  then show ?case by (auto split: sum.splits if_splits)
qed simp_all

lemma handleHttpError_no_response:
  "handleHttpError x = Inl e \<or> handleHttpError x = Inr e \<Longrightarrow> response e = None"
  unfolding handleHttpError_def
  by (auto split: option.splits sum.splits if_splits
      dest: get_prop_error toString_error [rule_format] simp: new_Error_def)

lemma httpClient_rejected:
  "transmit E k = Rejected x \<Longrightarrow> \<exists>e. httpClient E c cfg k = Inl e \<and> response e = None"
  using handleHttpError_no_response [of x]
  by (cases "handleHttpError x") (auto simp: httpClient_def response_interceptor_def)

lemma executeWithRetry_all_retryable:
  assumes "\<forall>k. \<exists>e. f k = Inl e \<and> isRetryableError e"
  shows "a \<le> maxRetries c \<Longrightarrow>
    executeWithRetry c f a s =
      (Inl (projl (f (calls s + nat (maxRetries c - a)))),
       \<lparr>calls = calls s + nat (maxRetries c - a) + 1, trace = trace s @ retry_trace c a\<rparr>)" 
proof (induction "nat (maxRetries c - a)" arbitrary: a s)
  case 0
  then have a: "a = maxRetries c" by simp
  obtain e where e: "f (calls s) = Inl e" using assms by blast
  show ?case
    by (subst executeWithRetry.simps) (simp add: e a invoke_def retry_trace_def)
next
  case (Suc n)
  then have lt: "a < maxRetries c" and n: "n = nat (maxRetries c - (a + 1))" by simp_all
  obtain e where e: "f (calls s) = Inl e" "isRetryableError e" using assms by blast
  define s' where "s' = sleep (retryDelay c * backoffMultiplier c ^ nat (a - 1)) (invoke a s)"
  have step: "executeWithRetry c f a s = executeWithRetry c f (a + 1) s'"
    using lt e by (subst executeWithRetry.simps) (simp add: s'_def)
  have up: "[a + 1..maxRetries c] = (a + 1) # [a + 1 + 1..maxRetries c]"
    using lt by (simp add: upto_rec1)
  have cs: "calls s' = Suc (calls s)"
    and ts: "trace s' = trace s @ [Attempt a, Sleep (retryDelay c * backoffMultiplier c ^ nat (a - 1))]"
    by (simp_all add: s'_def sleep_def invoke_def)
  have idx: "calls s' + nat (maxRetries c - (a + 1)) = calls s + nat (maxRetries c - a)"
    using lt cs by simp
  have rt: "retry_trace c a =
      [Attempt a, Sleep (retryDelay c * backoffMultiplier c ^ nat (a - 1))] @ retry_trace c (a + 1)"
    unfolding retry_trace_def [of c a] up by (simp add: retry_trace_def)
  have "executeWithRetry c f (a + 1) s' =
      (Inl (projl (f (calls s' + nat (maxRetries c - (a + 1))))),
       \<lparr>calls = calls s' + nat (maxRetries c - (a + 1)) + 1, trace = trace s' @ retry_trace c (a + 1)\<rparr>)"
    using lt by (intro Suc.hyps(1) [OF n]) simp
  then show ?case
    unfolding step idx ts rt by simp
qed

lemma makeRequest_all_rejected:
  assumes "\<forall>k. \<exists>x. transmit E k = Rejected x" and "1 \<le> maxRetries c"
  shows "\<exists>err. makeRequest E c cfg =
           (Inl err, \<lparr>calls = nat (maxRetries c), trace = retry_trace c 1\<rparr>)"
proof -
  have "\<forall>k. \<exists>e. httpClient E c cfg k = Inl e \<and> isRetryableError e"
  proof
    fix k
    obtain x where "transmit E k = Rejected x" using assms(1) by blast
    from httpClient_rejected [OF this, of c cfg]
    show "\<exists>e. httpClient E c cfg k = Inl e \<and> isRetryableError e"
      by (auto simp: isRetryableError_def)
  qed
  from executeWithRetry_all_retryable [OF this, of 1 c exec_init] assms(2)
  show ?thesis
    by (simp add: makeRequest_def exec_init_def nat_diff_distrib)
qed

text \<open>
  C1. Retry bound: when every attempt of a REST call is answered with HTTP 503, the executor
  makes exactly \<open>maxRetries\<close> attempts, sleeps \<open>retryDelay * backoffMultiplier ^ (k - 2)\<close>
  before attempt \<open>k\<close> for every \<open>k\<close> from 2 on, and then fails with the error of the last
  attempt.
\<close>

theorem retry_bound_503:
  assumes "1 \<le> maxRetries c"
    and "\<forall>k. \<exists>e r. transmit E k = Rejected e \<and> response e = Some r \<and> status r = 503"
  shows "\<exists>err. makeRequest E c cfg =
           (Inl err,
            \<lparr>calls = nat (maxRetries c),
             trace = Attempt 1 #
               concat (map (\<lambda>k. [Sleep (retryDelay c * backoffMultiplier c ^ nat (k - 2)), Attempt k])
                 [2..maxRetries c])\<rparr>)"
proof -
  have "\<forall>k. \<exists>x. transmit E k = Rejected x" using assms(2) by blast
  from makeRequest_all_rejected [OF this assms(1), of cfg]
  show ?thesis by (simp add: retry_trace_def)
qed

theorem retry_bound_503_witness:
  "\<exists>err. makeRequest (rejecting 503 ''Service Unavailable'') default_client get_balances =
     (Inl err, \<lparr>calls = 3, trace = [Attempt 1, Sleep 1000, Attempt 2, Sleep 2000, Attempt 3]\<rparr>)"
proof -
  have c: "maxRetries default_client = 3" "retryDelay default_client = 1000"
    "backoffMultiplier default_client = 2"
    by (simp_all add: default_client_def PionexClient_def no_options_def or_default_def)
  have up: "[2..3::int] = [2, 3]" by (simp add: upto_rec1)
  show ?thesis
    using retry_bound_503 [of default_client "rejecting 503 ''Service Unavailable''" get_balances]
    by (simp add: c up rejecting_def)
qed

text \<open>
  The executor itself stops at once on an error that still carries a response with a status
  below 500 other than 429. Behind the response interceptor no error carries a response
  (\<open>httpClient_rejected\<close>), so \<open>makeRequest\<close> never takes this path.
\<close>

lemma executeWithRetry_terminal_status:
  assumes "requestFn (calls s) = Inl error" and "response error = Some r"
    and "status r < 500" and "status r \<noteq> 429"
  shows "executeWithRetry c requestFn attempt s = (Inl error, invoke attempt s)"
  using assms by (subst executeWithRetry.simps) (simp add: isRetryableError_def)

text \<open>
  C5. A REST call that is answered with HTTP 400 every time, under the default configuration:
  three attempts are made, with sleeps of 1000 and 2000 ms, before the error is surfaced.
\<close>

theorem http_400_is_retried:
  "makeRequest (rejecting 400 ''Bad Request'') default_client get_balances =
     (Inl (new_Error ''Pionex API Error (400): Bad Request''),
      \<lparr>calls = 3, trace = [Attempt 1, Sleep 1000, Attempt 2, Sleep 2000, Attempt 3]\<rparr>)"
  by code_simp

section \<open>The stream connection: reconnecting\<close>

lemma pionex_on_message_fields:
  "wsReconnectAttempts (on_message E raw s) = wsReconnectAttempts s"
  "scheduled (on_message E raw s) = scheduled s"
  "reconnect_failed \<in> set (emits (on_message E raw s)) \<longleftrightarrow> reconnect_failed \<in> set (emits s)"
  by (auto simp: on_message_def pionex_handleWebSocketMessage_def emit_def reconnect_failed_def
      split: sum.splits if_splits)

lemma stream_step_other:
  assumes "ev \<noteq> EvOpen" and "\<not> is_close ev"
  shows "wsReconnectAttempts (stream_step E c ev s) = wsReconnectAttempts s \<and>
    scheduled (stream_step E c ev s) = scheduled s \<and>
    (reconnect_failed \<in> set (emits (stream_step E c ev s)) \<longleftrightarrow> reconnect_failed \<in> set (emits s))"
  using assms
  by (cases ev)
    (simp_all add: pionex_on_message_fields [unfolded reconnect_failed_def] on_error_def emit_def connectWebSocket_def
      disconnectWebSocket_def subscribeToTicker_def subscribeToKlines_def unsubscribe_def
      keep_def x_send_def reconnect_failed_def split: option.splits)

lemma on_close_below:
  assumes "wsReconnectAttempts s < maxReconnectAttempts c"
  shows "wsReconnectAttempts (on_close c code reason s) = wsReconnectAttempts s + 1"
    and "scheduled (on_close c code reason s) = scheduled s @ [reconnectDelay c * (wsReconnectAttempts s + 1)]"
    and "emits (on_close c code reason s) =
           emits s @ [Emit ''wsDisconnected'' (JObj [(''code'', code), (''reason'', reason)])]"
  using assms
  by (simp_all add: on_close_def handleWebSocketReconnect_def emit_def set_readyState_def)

lemma on_close_at_cap:
  assumes "wsReconnectAttempts s \<ge> maxReconnectAttempts c"
  shows "wsReconnectAttempts (on_close c code reason s) = wsReconnectAttempts s"
    and "scheduled (on_close c code reason s) = scheduled s"
    and "emits (on_close c code reason s) =
           emits s @ [Emit ''wsDisconnected'' (JObj [(''code'', code), (''reason'', reason)]),
                      Emit ''wsReconnectFailed'' JUndefined]"
  using assms
  by (simp_all add: on_close_def handleWebSocketReconnect_def emit_def set_readyState_def)

lemma stream_run_closes:
  "EvOpen \<notin> set evs \<Longrightarrow>
   length (filter is_close evs) = 0 \<or>
     wsReconnectAttempts s + int (length (filter is_close evs)) \<le> maxReconnectAttempts c \<Longrightarrow>
   wsReconnectAttempts (stream_run E c evs s) = wsReconnectAttempts s + int (length (filter is_close evs)) \<and>
   scheduled (stream_run E c evs s) =
     scheduled s @ map (\<lambda>k. reconnectDelay c * k)
       [wsReconnectAttempts s + 1..wsReconnectAttempts s + int (length (filter is_close evs))] \<and>
   (reconnect_failed \<in> set (emits (stream_run E c evs s)) \<longleftrightarrow> reconnect_failed \<in> set (emits s))"
proof (induction evs arbitrary: s)
  case Nil
  then show ?case by simp
next
  case (Cons ev evs)
  show ?case
  proof (cases "is_close ev")
    case False
    with Cons.prems have o: "ev \<noteq> EvOpen" "\<not> is_close ev" by auto
    note st = stream_step_other [OF o, of E c s]
    have "length (filter is_close evs) = 0 \<or>
        wsReconnectAttempts (stream_step E c ev s) + int (length (filter is_close evs)) \<le> maxReconnectAttempts c"
      using Cons.prems(2) False by (simp add: st)
    from Cons.IH [OF _ this] Cons.prems(1) show ?thesis
      using False by (simp add: st)
  next
    case True
    then obtain code reason where ev: "ev = EvClose code reason" by (cases ev) simp_all
    let ?m = "length (filter is_close evs)"
    from Cons.prems(2) True have le: "wsReconnectAttempts s + 1 + int ?m \<le> maxReconnectAttempts c"
      by simp
    then have lt: "wsReconnectAttempts s < maxReconnectAttempts c" by simp
    note st = on_close_below [OF lt, of code reason]
    have "?m = 0 \<or> wsReconnectAttempts (stream_step E c ev s) + int ?m \<le> maxReconnectAttempts c"
      using le by (simp add: ev st)
    from Cons.IH [OF _ this] Cons.prems(1)
    have ih: "wsReconnectAttempts (stream_run E c (ev # evs) s) = wsReconnectAttempts s + 1 + int ?m"
      "scheduled (stream_run E c (ev # evs) s) =
         (scheduled s @ [reconnectDelay c * (wsReconnectAttempts s + 1)]) @ map (\<lambda>k. reconnectDelay c * k)
           [wsReconnectAttempts s + 1 + 1..wsReconnectAttempts s + 1 + int ?m]"
      "reconnect_failed \<in> set (emits (stream_run E c (ev # evs) s)) \<longleftrightarrow> reconnect_failed \<in> set (emits s)"
      by (simp_all add: ev st reconnect_failed_def)
    have up: "[wsReconnectAttempts s + 1..wsReconnectAttempts s + int (Suc ?m)] =
        (wsReconnectAttempts s + 1) # [wsReconnectAttempts s + 1 + 1..wsReconnectAttempts s + 1 + int ?m]"
    proof -
      have e: "wsReconnectAttempts s + int (Suc ?m) = wsReconnectAttempts s + 1 + int ?m" by simp
      show ?thesis unfolding e by (rule upto_rec1) simp
    qed
    show ?thesis
      using True ih up by simp
  qed
qed

text \<open>
  C2. Reconnect backoff and cap: starting with the attempt counter at 0, a run of events that
  contains \<open>maxReconnectAttempts\<close> close events and no open event schedules reconnects
  after \<open>reconnectDelay * 1, reconnectDelay * 2, ..., reconnectDelay * maxReconnectAttempts\<close>
  and emits no \<open>wsReconnectFailed\<close>; one more close then emits \<open>wsReconnectFailed\<close> and
  schedules nothing.
\<close>

theorem reconnect_backoff_and_cap:
  assumes "wsReconnectAttempts s = 0" and "scheduled s = []"
    and "reconnect_failed \<notin> set (emits s)"
    and "EvOpen \<notin> set evs"
    and "length (filter is_close evs) = nat (maxReconnectAttempts c)"
  shows "scheduled (stream_run E c evs s) =
           map (\<lambda>k. reconnectDelay c * k) [1..maxReconnectAttempts c] \<and>
         reconnect_failed \<notin> set (emits (stream_run E c evs s)) \<and>
         emits (stream_step E c (EvClose code reason) (stream_run E c evs s)) =
           emits (stream_run E c evs s) @
             [Emit ''wsDisconnected'' (JObj [(''code'', code), (''reason'', reason)]), reconnect_failed] \<and>
         scheduled (stream_step E c (EvClose code reason) (stream_run E c evs s)) =
           scheduled (stream_run E c evs s)"
proof -
  let ?n = "length (filter is_close evs)"
  have pre: "?n = 0 \<or> wsReconnectAttempts s + int ?n \<le> maxReconnectAttempts c"
    using assms(1,5) by auto
  note run = stream_run_closes [OF assms(4) pre, of E]
  have up: "[1..int ?n] = [1..maxReconnectAttempts c]"
    using assms(5) by (cases "maxReconnectAttempts c \<ge> 0") simp_all
  have a: "scheduled (stream_run E c evs s) = map (\<lambda>k. reconnectDelay c * k) [1..maxReconnectAttempts c]"
    using run assms(1,2) up by simp
  have b: "reconnect_failed \<notin> set (emits (stream_run E c evs s))"
    using run assms(3) by simp
  have cap: "wsReconnectAttempts (stream_run E c evs s) \<ge> maxReconnectAttempts c"
    using run assms(1,5) by simp
  have d: "emits (stream_step E c (EvClose code reason) (stream_run E c evs s)) =
           emits (stream_run E c evs s) @
             [Emit ''wsDisconnected'' (JObj [(''code'', code), (''reason'', reason)]), reconnect_failed]"
    using on_close_at_cap(3) [OF cap] by (simp add: reconnect_failed_def)
  have e: "scheduled (stream_step E c (EvClose code reason) (stream_run E c evs s)) =
           scheduled (stream_run E c evs s)"
    using on_close_at_cap(2) [OF cap] by simp
  show ?thesis using a b d e by blast
qed

theorem reconnect_backoff_and_cap_witness:
  "scheduled (stream_run (rejecting 503 []) default_client five_failures stream_init) =
     [5000, 10000, 15000, 20000, 25000] \<and>
   reconnect_failed \<notin> set (emits (stream_run (rejecting 503 []) default_client five_failures stream_init)) \<and>
   emits (stream_step (rejecting 503 []) default_client (EvClose (JNum ''1006'') (JStr []))
            (stream_run (rejecting 503 []) default_client five_failures stream_init)) =
     emits (stream_run (rejecting 503 []) default_client five_failures stream_init) @
       [Emit ''wsDisconnected'' (JObj [(''code'', JNum ''1006''), (''reason'', JStr [])]), reconnect_failed] \<and>
   scheduled (stream_step (rejecting 503 []) default_client (EvClose (JNum ''1006'') (JStr []))
            (stream_run (rejecting 503 []) default_client five_failures stream_init)) =
     [5000, 10000, 15000, 20000, 25000]"
proof -
  have c: "maxReconnectAttempts default_client = 5" "reconnectDelay default_client = 5000"
    by (simp_all add: default_client_def PionexClient_def no_options_def or_default_def)
  have up: "[1..5::int] = [1, 2, 3, 4, 5]" by (simp add: upto_rec1)
  have n: "length (filter is_close five_failures) = nat 5" "EvOpen \<notin> set five_failures"
    by (simp_all add: five_failures_def numeral_eq_Suc)
  show ?thesis
    using reconnect_backoff_and_cap [of stream_init five_failures default_client "rejecting 503 []"
        "JNum ''1006''" "JStr []"] n
    by (simp add: c up stream_init_def)
qed

section \<open>The stream connection: the attempt counter\<close>

text \<open>
  C7. The attempt counter is set to 0 by the open event. Every other event or method call
  either leaves the counter and the scheduled reconnects as they are, or schedules exactly
  one reconnect and increments the counter by exactly one.
\<close>

theorem reconnect_counter_discipline:
  "(ev = EvOpen \<longrightarrow> wsReconnectAttempts (stream_step E c ev s) = 0) \<and>
   (ev \<noteq> EvOpen \<longrightarrow>
      (wsReconnectAttempts (stream_step E c ev s) = wsReconnectAttempts s \<and>
       scheduled (stream_step E c ev s) = scheduled s) \<or>
      (wsReconnectAttempts (stream_step E c ev s) = wsReconnectAttempts s + 1 \<and>
       scheduled (stream_step E c ev s) =
         scheduled s @ [reconnectDelay c * (wsReconnectAttempts s + 1)]))"
proof (cases "is_close ev")
  case True
  then obtain code reason where ev: "ev = EvClose code reason" by (cases ev) simp_all
  show ?thesis
    by (simp add: ev on_close_def handleWebSocketReconnect_def emit_def set_readyState_def)
next
  case False
  show ?thesis
  proof (cases "ev = EvOpen")
    case True
    then show ?thesis by (simp add: on_open_def emit_def)
  next
    case no: False
    from stream_step_other [OF no False, of E c s] no show ?thesis by simp
  qed
qed

theorem reconnect_counter_discipline_witness:
  "wsReconnectAttempts (stream_step (rejecting 503 []) default_client EvOpen
      (stream_run (rejecting 503 []) default_client five_failures stream_init)) = 0 \<and>
   wsReconnectAttempts (stream_step (rejecting 503 []) default_client (EvClose (JNum ''1006'') (JStr []))
      open_stream) = 1 \<and>
   scheduled (stream_step (rejecting 503 []) default_client (EvClose (JNum ''1006'') (JStr []))
      open_stream) = [5000]"
proof -
  have c: "maxReconnectAttempts default_client = 5" "reconnectDelay default_client = 5000"
    by (simp_all add: default_client_def PionexClient_def no_options_def or_default_def)
  have o: "wsReconnectAttempts open_stream = 0" "scheduled open_stream = []"
    by (simp_all add: open_stream_def)
  have neq: "wsReconnectAttempts (stream_step (rejecting 503 []) default_client
      (EvClose (JNum ''1006'') (JStr [])) open_stream) \<noteq> wsReconnectAttempts open_stream"
    by (simp add: o c on_close_def handleWebSocketReconnect_def emit_def set_readyState_def)
  show ?thesis
    using reconnect_counter_discipline [of EvOpen "rejecting 503 []" default_client
        "stream_run (rejecting 503 []) default_client five_failures stream_init"]
      reconnect_counter_discipline [of "EvClose (JNum ''1006'') (JStr [])" "rejecting 503 []"
        default_client open_stream] neq
    by (simp add: o c)
qed

section \<open>The stream connection: outbound frames\<close>

text \<open>
  C8, as stated, fails: \<open>unsubscribe\<close> sends the stream ids it is given as they are, so an
  id in upper case goes out in upper case.
\<close>

theorem unsubscribe_keeps_case:
  "unsubscribe 1700000000000 (One ''BTCUSDT@ticker'') open_stream =
     Inr (open_stream\<lparr>ws := Some \<lparr>x_readyState = OPEN,
            x_sent = [\<lparr>frame_method = ''UNSUBSCRIBE'', params = [''BTCUSDT@ticker''],
                       frame_id = 1700000000000\<rparr>]\<rparr>\<rparr>) \<and>
   toLowerCase ''BTCUSDT@ticker'' = ''btcusdt@ticker'' \<and>
   ''BTCUSDT@ticker'' \<noteq> ''btcusdt@ticker''"
proof -
  have l: "toLowerCase ''BTCUSDT@ticker'' = ''btcusdt@ticker''" by code_simp
  show ?thesis
    by (simp add: l unsubscribe_def is_open_def open_stream_def x_send_def)
qed

text \<open>
  C8, amended. While the connection is not open, \<open>subscribeToTicker\<close>,
  \<open>subscribeToKlines\<close> and \<open>unsubscribe\<close> throw and leave the connection state as it
  was: nothing is sent and nothing is queued. While it is open, each sends one frame:
  \<open>SUBSCRIBE\<close> with the id \<open>toLowerCase symbol @ ''@ticker''\<close>, \<open>SUBSCRIBE\<close> with the id
  \<open>toLowerCase symbol @ ''@kline_'' @ interval\<close> (the interval as given), and
  \<open>UNSUBSCRIBE\<close> with the caller's stream ids as given (a single id as a one-element list).
\<close>

theorem outbound_frames:
  "(\<not> is_open s \<longrightarrow>
      subscribeToTicker now symbol s = Inl (new_Error ''WebSocket not connected'') \<and>
      subscribeToKlines now symbol interval s = Inl (new_Error ''WebSocket not connected'') \<and>
      unsubscribe now streams s = Inl (new_Error ''WebSocket not connected'') \<and>
      stream_step E c (CallSubscribeToTicker now symbol) s = s \<and>
      stream_step E c (CallSubscribeToKlines now symbol interval) s = s \<and>
      stream_step E c (CallUnsubscribe now streams) s = s) \<and>
   (is_open s \<longrightarrow>
      (\<exists>sock. ws s = Some sock \<and>
         subscribeToTicker now symbol s =
           Inr (s\<lparr>ws := Some (sock\<lparr>x_sent := x_sent sock @
             [\<lparr>frame_method = ''SUBSCRIBE'', params = [toLowerCase symbol @ ''@ticker''],
               frame_id = now\<rparr>]\<rparr>)\<rparr>) \<and>
         subscribeToKlines now symbol interval s =
           Inr (s\<lparr>ws := Some (sock\<lparr>x_sent := x_sent sock @
             [\<lparr>frame_method = ''SUBSCRIBE'', params = [toLowerCase symbol @ ''@kline_'' @ interval],
               frame_id = now\<rparr>]\<rparr>)\<rparr>) \<and>
         unsubscribe now streams s =
           Inr (s\<lparr>ws := Some (sock\<lparr>x_sent := x_sent sock @
             [\<lparr>frame_method = ''UNSUBSCRIBE'',
               params = (case streams of Many xs \<Rightarrow> xs | One x \<Rightarrow> [x]),
               frame_id = now\<rparr>]\<rparr>)\<rparr>)))"
  by (cases "ws s")
    (simp_all add: subscribeToTicker_def subscribeToKlines_def unsubscribe_def keep_def
      is_open_def x_send_def)

theorem outbound_frames_witness:
  "subscribeToKlines 1700000000000 ''BTCUSDT'' ''1H'' stream_init = Inl (new_Error ''WebSocket not connected'') \<and>
   stream_step (rejecting 503 []) default_client (CallUnsubscribe 1700000000000 (Many [''btcusdt@ticker''])) stream_init
     = stream_init \<and>
   subscribeToKlines 1700000000000 ''BTCUSDT'' ''1H'' open_stream =
     Inr (open_stream\<lparr>ws := Some \<lparr>x_readyState = OPEN,
            x_sent = [\<lparr>frame_method = ''SUBSCRIBE'', params = [''btcusdt@kline_1H''],
                       frame_id = 1700000000000\<rparr>]\<rparr>\<rparr>)"
proof -
  have i: "\<not> is_open stream_init" "is_open open_stream"
    by (simp_all add: is_open_def stream_init_def open_stream_def)
  have l: "toLowerCase ''BTCUSDT'' = ''btcusdt''" by code_simp
  show ?thesis
    using outbound_frames [of stream_init 1700000000000 "''BTCUSDT''" "''1H''"
        "Many [''btcusdt@ticker'']" "rejecting 503 []" default_client]
      outbound_frames [of open_stream 1700000000000 "''BTCUSDT''" "''1H''"
        "Many [''btcusdt@ticker'']" "rejecting 503 []" default_client] i
    by (simp add: l open_stream_def keep_def)
qed

section \<open>The hub: fan-out\<close>

lemma forEach_distinct:
  "distinct rs \<Longrightarrow> forEach f rs h r = (if r \<in> set rs then f (h r) else h r)"
  by (induction rs arbitrary: h) auto

text \<open>The registry stays free of duplicates.\<close>

lemma registry_distinct:
  assumes "distinct (wsClients srv)"
  shows "distinct (wsClients (on_connection cid now r srv))"
    and "distinct (wsClients (server_on_close r srv))"
    and "distinct (wsClients (server_on_error r srv))"
  using assms
  by (simp_all add: on_connection_def server_on_close_def server_on_error_def distinct_removeAll)

text \<open>The key of a channel and a symbol that are strings: the two, with a colon between.\<close>

lemma subscription_key_strings:
  "subscription_key (JStr c) (JStr s) = Inr (c @ '':'' @ s)"
  by (simp add: subscription_key_def)

text \<open>
  Whatever the channel and the symbol are, as long as the key can be built: the broadcast
  reaches the registered open sockets that hold the key, and no other socket.
\<close>

lemma broadcast_by_key:
  assumes "subscription_key channel symbol = Inr key" and "distinct (wsClients srv)"
  shows "\<exists>srv'. broadcastToSubscribers now channel symbol d srv = (None, srv') \<and>
           wsClients srv' = wsClients srv \<and>
           (\<forall>r. sockets srv' r =
              (if r \<in> set (wsClients srv) \<and> readyState (sockets srv r) = OPEN \<and>
                  (\<exists>subs. subscriptions (sockets srv r) = Some subs \<and> key \<in> set subs)
               then (sockets srv r)\<lparr>sent := sent (sockets srv r) @ [MsgData channel symbol d now]\<rparr>
               else sockets srv r))"
  using assms
  by (auto simp: broadcastToSubscribers_def forEach_distinct deliver_def ws_send_def set_has_def
      split: option.splits)

text \<open>
  C4. Fan-out: a broadcast for the channel \<open>c\<close> and the symbol \<open>s\<close> calls \<open>send\<close> with
  the data message on exactly those registered sockets that are open and whose key set
  contains the key \<open>c @ '':'' @ s\<close>, that is \<open>channel:symbol\<close>; every other socket, in
  particular a registered one that is no longer open, is left as it was.
\<close>

theorem fan_out:
  assumes "distinct (wsClients srv)"
  shows "\<exists>srv'. broadcastToSubscribers now (JStr c) (JStr s) d srv = (None, srv') \<and>
           wsClients srv' = wsClients srv \<and>
           (\<forall>r. sockets srv' r =
              (if r \<in> set (wsClients srv) \<and> readyState (sockets srv r) = OPEN \<and>
                  (\<exists>subs. subscriptions (sockets srv r) = Some subs \<and> c @ '':'' @ s \<in> set subs)
               then (sockets srv r)\<lparr>sent := sent (sockets srv r) @ [MsgData (JStr c) (JStr s) d now]\<rparr>
               else sockets srv r))"
  by (rule broadcast_by_key [OF subscription_key_strings assms])

theorem fan_out_witness:
  "\<exists>srv'. broadcastToSubscribers ''2025-01-01T00:00:00.000Z'' (JStr ''ticker'') (JStr ''BTCUSDT'')
             (JNum ''42'') three_sessions = (None, srv') \<and>
     sent (sockets srv' 0) =
       [MsgData (JStr ''ticker'') (JStr ''BTCUSDT'') (JNum ''42'') ''2025-01-01T00:00:00.000Z''] \<and>
     sent (sockets srv' 1) = [] \<and> sent (sockets srv' 2) = []"
proof -
  have d: "distinct (wsClients three_sessions)"
    by (simp add: three_sessions_def)
  from fan_out [OF d, of "''2025-01-01T00:00:00.000Z''" "''ticker''" "''BTCUSDT''" "JNum ''42''"]
  obtain srv' where b: "broadcastToSubscribers ''2025-01-01T00:00:00.000Z'' (JStr ''ticker'')
        (JStr ''BTCUSDT'') (JNum ''42'') three_sessions = (None, srv')"
    and s: "\<And>r. sockets srv' r =
       (if r \<in> set (wsClients three_sessions) \<and> readyState (sockets three_sessions r) = OPEN \<and>
           (\<exists>subs. subscriptions (sockets three_sessions r) = Some subs \<and>
              ''ticker'' @ '':'' @ ''BTCUSDT'' \<in> set subs)
        then (sockets three_sessions r)\<lparr>sent := sent (sockets three_sessions r) @
          [MsgData (JStr ''ticker'') (JStr ''BTCUSDT'') (JNum ''42'') ''2025-01-01T00:00:00.000Z'']\<rparr>
        else sockets three_sessions r)"
    by blast
  have "sent (sockets srv' 0) =
       [MsgData (JStr ''ticker'') (JStr ''BTCUSDT'') (JNum ''42'') ''2025-01-01T00:00:00.000Z'']"
    "sent (sockets srv' 1) = []" "sent (sockets srv' 2) = []"
    by (simp_all add: s three_sessions_def new_ws_def)
  with b show ?thesis by blast
qed

section \<open>The hub: subscriptions\<close>

lemma count_list_set_add:
  "distinct xs \<Longrightarrow> count_list (set_add x xs) x = 1 \<and> distinct (set_add x xs) \<and>
     set_add x (set_add x xs) = set_add x xs"
  by (induction xs) (auto simp: set_add_def)

text \<open>The key sets stay free of duplicates.\<close>

lemma handleSubscription_distinct:
  assumes "\<forall>subs. subscriptions w = Some subs \<longrightarrow> distinct subs"
    and "handleSubscription w d = (x, w')" and "subscriptions w' = Some subs'"
  shows "distinct subs'"
  using assms
  by (auto simp: handleSubscription_def Let_def ws_send_def set_add_def
      split: sum.splits if_splits option.splits)

lemma handleUnsubscription_distinct:
  assumes "\<forall>subs. subscriptions w = Some subs \<longrightarrow> distinct subs"
    and "handleUnsubscription w d = (x, w')" and "subscriptions w' = Some subs'"
  shows "distinct subs'"
  using assms
  by (auto simp: handleUnsubscription_def ws_send_def set_delete_def distinct_removeAll
      split: sum.splits option.splits)

text \<open>
  Whatever the channel and the symbol of the message are, as long as the key can be built:
  subscribing twice leaves the key once, and unsubscribing from a key that is not held
  leaves the key set as it was.
\<close>

lemma subscribe_twice_by_key:
  assumes "get_prop d ''channel'' = Inr channel" and "get_prop d ''symbol'' = Inr symbol"
    and "subscription_key channel symbol = Inr key"
    and "\<forall>subs. subscriptions w = Some subs \<longrightarrow> distinct subs"
  shows "(\<exists>w1 w2 subs.
            handleSubscription w d = (None, w1) \<and> handleSubscription w1 d = (None, w2) \<and>
            subscriptions w2 = Some subs \<and> count_list subs key = 1 \<and> distinct subs \<and>
            subscriptions w2 = subscriptions w1) \<and>
         ((\<forall>subs. subscriptions w = Some subs \<longrightarrow> key \<notin> set subs) \<longrightarrow>
            (\<exists>w'. handleUnsubscription w d = (None, w') \<and> subscriptions w' = subscriptions w))"
proof -
  define subs0 where "subs0 = (case subscriptions w of None \<Rightarrow> [] | Some subs \<Rightarrow> subs)"
  have d0: "distinct subs0"
    using assms(4) by (simp add: subs0_def split: option.splits)
  define w1 where "w1 = ws_send (MsgSubscribed channel symbol key) (w\<lparr>subscriptions := Some (set_add key subs0)\<rparr>)"
  define w2 where "w2 = ws_send (MsgSubscribed channel symbol key) w1"
  have s1: "handleSubscription w d = (None, w1)"
    using assms(1-3)
    by (cases "subscriptions w") (simp_all add: handleSubscription_def w1_def subs0_def Let_def)
  have k1: "subscriptions w1 = Some (set_add key subs0)"
    by (simp add: w1_def ws_send_def)
  have s2: "handleSubscription w1 d = (None, w2)"
    using assms(1-3) count_list_set_add [OF d0, of key]
    by (simp add: handleSubscription_def k1 w2_def Let_def) (simp add: w1_def ws_send_def)
  have k2: "subscriptions w2 = Some (set_add key subs0)"
    by (simp add: w2_def k1 ws_send_def)
  have sub: "\<exists>w1 w2 subs.
            handleSubscription w d = (None, w1) \<and> handleSubscription w1 d = (None, w2) \<and>
            subscriptions w2 = Some subs \<and> count_list subs key = 1 \<and> distinct subs \<and>
            subscriptions w2 = subscriptions w1"
    using s1 s2 k1 k2 count_list_set_add [OF d0, of key]
    by (intro exI [of _ w1] exI [of _ w2] exI [of _ "set_add key subs0"]) simp
  have unsub: "(\<forall>subs. subscriptions w = Some subs \<longrightarrow> key \<notin> set subs) \<longrightarrow>
            (\<exists>w'. handleUnsubscription w d = (None, w') \<and> subscriptions w' = subscriptions w)"
    using assms(1-3)
    by (cases "subscriptions w") (simp_all add: handleUnsubscription_def ws_send_def set_delete_def)
  from sub unsub show ?thesis by blast
qed

text \<open>
  C6. Subscription idempotence, for a message whose data object has the channel \<open>c\<close> and
  the symbol \<open>s\<close>: after two subscribe messages the key set holds the key
  \<open>c @ '':'' @ s\<close>, that is \<open>channel:symbol\<close>, exactly once, the second message having left
  the set as the first made it; and an unsubscribe message, when the session does not hold
  that key, throws nothing and leaves the key set as it was.
\<close>

theorem subscription_idempotence:
  assumes "map_of ps ''channel'' = Some (JStr c)" and "map_of ps ''symbol'' = Some (JStr s)"
    and "\<forall>subs. subscriptions w = Some subs \<longrightarrow> distinct subs"
  shows "(\<exists>w1 w2 subs.
            handleSubscription w (JObj ps) = (None, w1) \<and>
            handleSubscription w1 (JObj ps) = (None, w2) \<and>
            subscriptions w2 = Some subs \<and> count_list subs (c @ '':'' @ s) = 1 \<and>
            distinct subs \<and> c @ '':'' @ s \<in> set subs \<and>
            (\<forall>k. k \<noteq> c @ '':'' @ s \<longrightarrow>
               (k \<in> set subs \<longleftrightarrow> (\<exists>old. subscriptions w = Some old \<and> k \<in> set old))) \<and>
            subscriptions w2 = subscriptions w1) \<and>
         ((\<forall>subs. subscriptions w = Some subs \<longrightarrow> c @ '':'' @ s \<notin> set subs) \<longrightarrow>
            (\<exists>w'. handleUnsubscription w (JObj ps) = (None, w') \<and>
               subscriptions w' = subscriptions w))"
proof -
  have p: "get_prop (JObj ps) ''channel'' = Inr (JStr c)"
    "get_prop (JObj ps) ''symbol'' = Inr (JStr s)"
    using assms(1,2) by simp_all
  note byk = subscribe_twice_by_key [OF p subscription_key_strings assms(3)]
  from byk obtain w1 w2 subs where h:
    "handleSubscription w (JObj ps) = (None, w1)" "handleSubscription w1 (JObj ps) = (None, w2)"
    "subscriptions w2 = Some subs" "count_list subs (c @ '':'' @ s) = 1" "distinct subs"
    "subscriptions w2 = subscriptions w1"
    by blast
  have w1: "subscriptions w1 =
      Some (set_add (c @ '':'' @ s) (case subscriptions w of None \<Rightarrow> [] | Some old \<Rightarrow> old))"
    using h(1) p
    by (cases "subscriptions w")
      (auto simp: handleSubscription_def Let_def subscription_key_strings ws_send_def)
  have mem: "c @ '':'' @ s \<in> set subs"
    using h(3,6) w1 by (auto simp: set_add_def)
  have others: "\<forall>k. k \<noteq> c @ '':'' @ s \<longrightarrow>
      (k \<in> set subs \<longleftrightarrow> (\<exists>old. subscriptions w = Some old \<and> k \<in> set old))"
    using h(3,6) w1 by (cases "subscriptions w") (auto simp: set_add_def split: if_splits)
  have first: "\<exists>w1 w2 subs.
            handleSubscription w (JObj ps) = (None, w1) \<and>
            handleSubscription w1 (JObj ps) = (None, w2) \<and>
            subscriptions w2 = Some subs \<and> count_list subs (c @ '':'' @ s) = 1 \<and>
            distinct subs \<and> c @ '':'' @ s \<in> set subs \<and>
            (\<forall>k. k \<noteq> c @ '':'' @ s \<longrightarrow>
               (k \<in> set subs \<longleftrightarrow> (\<exists>old. subscriptions w = Some old \<and> k \<in> set old))) \<and>
            subscriptions w2 = subscriptions w1"
    using h mem others by (intro exI [of _ w1] exI [of _ w2] exI [of _ subs]) simp
  from first byk show ?thesis by blast
qed

theorem subscription_idempotence_witness:
  "(\<exists>w1 w2. handleSubscription (new_ws ''A'') (ticker_of ''BTCUSDT'') = (None, w1) \<and>
      handleSubscription w1 (ticker_of ''BTCUSDT'') = (None, w2) \<and>
      subscriptions w2 = Some [''ticker:BTCUSDT'']) \<and>
   (\<exists>w'. handleUnsubscription ((new_ws ''A'')\<lparr>subscriptions := Some [''ticker:ETHUSDT'']\<rparr>)
            (ticker_of ''BTCUSDT'') = (None, w') \<and>
      subscriptions w' = Some [''ticker:ETHUSDT''])"
proof -
  let ?ps = "[(''channel'', JStr ''ticker''), (''symbol'', JStr ''BTCUSDT'')]"
  have p: "map_of ?ps ''channel'' = Some (JStr ''ticker'')"
    "map_of ?ps ''symbol'' = Some (JStr ''BTCUSDT'')"
    by simp_all
  have a: "\<forall>subs. subscriptions (new_ws ''A'') = Some subs \<longrightarrow> distinct subs"
    by (simp add: new_ws_def)
  have b: "\<forall>subs. subscriptions ((new_ws ''A'')\<lparr>subscriptions := Some [''ticker:ETHUSDT'']\<rparr>) = Some subs
      \<longrightarrow> distinct subs"
    by simp
  have c: "\<forall>subs. subscriptions ((new_ws ''A'')\<lparr>subscriptions := Some [''ticker:ETHUSDT'']\<rparr>) = Some subs
      \<longrightarrow> ''ticker'' @ '':'' @ ''BTCUSDT'' \<notin> set subs"
    by simp
  have first: "\<exists>w1 w2. handleSubscription (new_ws ''A'') (JObj ?ps) = (None, w1) \<and>
      handleSubscription w1 (JObj ?ps) = (None, w2) \<and>
      subscriptions w2 = Some [''ticker:BTCUSDT'']"
  proof -
    from subscription_idempotence [OF p a]
    obtain w1 w2 subs where h: "handleSubscription (new_ws ''A'') (JObj ?ps) = (None, w1)"
      "handleSubscription w1 (JObj ?ps) = (None, w2)"
      "subscriptions w2 = Some subs" "distinct subs"
      "''ticker'' @ '':'' @ ''BTCUSDT'' \<in> set subs"
      "\<forall>k. k \<noteq> ''ticker'' @ '':'' @ ''BTCUSDT'' \<longrightarrow>
         (k \<in> set subs \<longleftrightarrow> (\<exists>old. subscriptions (new_ws ''A'') = Some old \<and> k \<in> set old))"
      by blast
    have st: "set subs = {''ticker:BTCUSDT''}"
      using h(5,6) by (auto simp: new_ws_def)
    have "subs = [''ticker:BTCUSDT'']"
    proof (cases subs)
      case Nil
      with st show ?thesis by simp
    next
      case (Cons x xs)
      with st h(4) have x: "x = ''ticker:BTCUSDT''" and xs: "set xs \<subseteq> {x}" "x \<notin> set xs"
        by auto
      from xs have "xs = []" by (cases xs) auto
      with Cons x show ?thesis by simp
    qed
    with h(1-3) show ?thesis by blast
  qed
  have second: "\<exists>w'. handleUnsubscription ((new_ws ''A'')\<lparr>subscriptions := Some [''ticker:ETHUSDT'']\<rparr>)
            (JObj ?ps) = (None, w') \<and>
      subscriptions w' = Some [''ticker:ETHUSDT'']"
    using subscription_idempotence [OF p b] c by simp
  show ?thesis
    unfolding ticker_of_def using first second by blast
qed

text \<open>
  C9, as stated, fails for a session that has never subscribed: its unsubscribe message
  is not acknowledged. Nothing is sent and the socket is left as it was.
\<close>

theorem unsubscribe_without_subscriptions_is_silent:
  "handleUnsubscription (new_ws ''A'') (ticker_of ''BTCUSDT'') = (None, new_ws ''A'') \<and>
   sent (new_ws ''A'') = []"
  by (simp add: handleUnsubscription_def new_ws_def ticker_of_def)

text \<open>
  Whatever the channel and the symbol of the message are, as long as the key can be built:
  what an unsubscribe message does to a session with a key set and to one without.
\<close>

lemma unsubscribe_by_key:
  assumes "get_prop d ''channel'' = Inr channel" and "get_prop d ''symbol'' = Inr symbol"
    and "subscription_key channel symbol = Inr key"
  shows "(\<forall>subs. subscriptions w = Some subs \<longrightarrow>
            (\<exists>w' subs'. handleUnsubscription w d = (None, w') \<and>
               sent w' = sent w @ [MsgUnsubscribed channel symbol key] \<and>
               subscriptions w' = Some subs' \<and> set subs' = set subs - {key} \<and>
               (key \<notin> set subs \<longrightarrow> subs' = subs) \<and>
               readyState w' = readyState w \<and> clientId w' = clientId w)) \<and>
         (subscriptions w = None \<longrightarrow> handleUnsubscription w d = (None, w))"
  using assms
  by (auto simp: handleUnsubscription_def ws_send_def set_delete_def)

text \<open>
  C9, amended, for a message whose data object has the channel \<open>c\<close> and the symbol \<open>s\<close>.
  For a session that has a key set (it has subscribed before), the unsubscribe message
  removes the key \<open>c @ '':'' @ s\<close>, that is \<open>channel:symbol\<close>, and no other key, is
  acknowledged with an \<open>unsubscribed\<close> message that carries the channel, the symbol and
  that key, and throws nothing; when the key is absent the key set stays as it was and the
  acknowledgement is still sent. For a session that has no key set the message changes
  nothing, sends nothing and throws nothing.
\<close>

theorem unsubscription:
  assumes "map_of ps ''channel'' = Some (JStr c)" and "map_of ps ''symbol'' = Some (JStr s)"
  shows "(\<forall>subs. subscriptions w = Some subs \<longrightarrow>
            (\<exists>w' subs'. handleUnsubscription w (JObj ps) = (None, w') \<and>
               sent w' = sent w @ [MsgUnsubscribed (JStr c) (JStr s) (c @ '':'' @ s)] \<and>
               subscriptions w' = Some subs' \<and> set subs' = set subs - {c @ '':'' @ s} \<and>
               (c @ '':'' @ s \<notin> set subs \<longrightarrow> subs' = subs) \<and>
               readyState w' = readyState w \<and> clientId w' = clientId w)) \<and>
         (subscriptions w = None \<longrightarrow> handleUnsubscription w (JObj ps) = (None, w))"
proof -
  have p: "get_prop (JObj ps) ''channel'' = Inr (JStr c)"
    "get_prop (JObj ps) ''symbol'' = Inr (JStr s)"
    using assms by simp_all
  show ?thesis
    by (rule unsubscribe_by_key [OF p subscription_key_strings])
qed

theorem unsubscription_witness:
  "(\<exists>w'. handleUnsubscription
       ((new_ws ''A'')\<lparr>subscriptions := Some [''ticker:ETHUSDT'', ''ticker:BTCUSDT'']\<rparr>)
       (ticker_of ''BTCUSDT'') = (None, w') \<and>
     sent w' = [MsgUnsubscribed (JStr ''ticker'') (JStr ''BTCUSDT'') ''ticker:BTCUSDT''] \<and>
     (\<exists>subs'. subscriptions w' = Some subs' \<and> set subs' = {''ticker:ETHUSDT''})) \<and>
   handleUnsubscription (new_ws ''B'') (ticker_of ''BTCUSDT'') = (None, new_ws ''B'')"
  unfolding ticker_of_def
proof -
  let ?ps = "[(''channel'', JStr ''ticker''), (''symbol'', JStr ''BTCUSDT'')]"
  have p: "map_of ?ps ''channel'' = Some (JStr ''ticker'')"
    "map_of ?ps ''symbol'' = Some (JStr ''BTCUSDT'')"
    by simp_all
  have n: "subscriptions (new_ws ''B'') = None" "sent (new_ws ''A'') = []"
    by (simp_all add: new_ws_def)
  have e: "{''ticker:ETHUSDT'', ''ticker:BTCUSDT''} - {''ticker:BTCUSDT''} = {''ticker:ETHUSDT''}"
    by auto
  show "(\<exists>w'. handleUnsubscription
       ((new_ws ''A'')\<lparr>subscriptions := Some [''ticker:ETHUSDT'', ''ticker:BTCUSDT'']\<rparr>)
       (JObj ?ps) = (None, w') \<and>
     sent w' = [MsgUnsubscribed (JStr ''ticker'') (JStr ''BTCUSDT'') ''ticker:BTCUSDT''] \<and>
     (\<exists>subs'. subscriptions w' = Some subs' \<and> set subs' = {''ticker:ETHUSDT''})) \<and>
   handleUnsubscription (new_ws ''B'') (JObj ?ps) = (None, new_ws ''B'')"
    using unsubscription [OF p,
        of "(new_ws ''A'')\<lparr>subscriptions := Some [''ticker:ETHUSDT'', ''ticker:BTCUSDT'']\<rparr>"]
      unsubscription [OF p, of "new_ws ''B''"] n
    by (simp add: e) blast
qed

section \<open>The hub: inbound messages\<close>

lemma handleSubscription_throws:
  "handleSubscription w d = (Some e, w') \<Longrightarrow>
     sent w' = sent w \<and> readyState w' = readyState w \<and> clientId w' = clientId w"
  by (auto simp: handleSubscription_def Let_def ws_send_def split: sum.splits if_splits)

lemma handleUnsubscription_throws:
  "handleUnsubscription w d = (Some e, w') \<Longrightarrow> w' = w"
  by (auto simp: handleUnsubscription_def ws_send_def split: sum.splits option.splits)

lemma handleWebSocketMessage_throws:
  "handleWebSocketMessage now w v = (Some e, w') \<Longrightarrow>
     sent w' = sent w \<and> readyState w' = readyState w \<and> clientId w' = clientId w"
  by (auto simp: handleWebSocketMessage_def split: sum.splits if_splits
      dest: handleSubscription_throws handleUnsubscription_throws)

lemma handleWebSocketMessage_unknown:
  assumes "get_prop v ''type'' = Inr t" and "t \<notin> known_types"
  shows "\<exists>x. (handleWebSocketMessage now w v = (Some x, w)) \<or>
           (\<exists>m. handleWebSocketMessage now w v = (None, ws_send (MsgError m) w))"
proof -
  from assms(1) have "\<exists>d. get_prop v ''data'' = Inr d"
    by (cases v) simp_all
  then obtain d where d: "get_prop v ''data'' = Inr d" ..
  show ?thesis
    using assms d
    by (cases "toString t") (auto simp: handleWebSocketMessage_def known_types_def)
qed

lemma client_on_message_error_reply:
  assumes "(\<exists>e. JSON_parse E raw = Inl e) \<or>
      (\<exists>v t. JSON_parse E raw = Inr v \<and> get_prop v ''type'' = Inr t \<and> t \<notin> known_types) \<or>
      (\<exists>v e w'. JSON_parse E raw = Inr v \<and> handleWebSocketMessage now w v = (Some e, w'))"
  shows "\<exists>w' m. client_on_message E now w raw = (None, w') \<and> sent w' = sent w @ [MsgError m] \<and>
           readyState w' = readyState w \<and> clientId w' = clientId w"
proof -
  consider (bad) e where "JSON_parse E raw = Inl e"
    | (unknown) v t where "JSON_parse E raw = Inr v" "get_prop v ''type'' = Inr t" "t \<notin> known_types"
    | (throws) v e w' where "JSON_parse E raw = Inr v" "handleWebSocketMessage now w v = (Some e, w')"
    using assms by blast
  then show ?thesis
  proof cases
    case bad
    then show ?thesis by (simp add: client_on_message_def ws_send_def)
  next
    case throws
    from handleWebSocketMessage_throws [OF throws(2)] throws show ?thesis
      by (simp add: client_on_message_def ws_send_def)
  next
    case unknown
    from handleWebSocketMessage_unknown [OF unknown(2,3), of now w] unknown(1)
    show ?thesis
      by (auto simp: client_on_message_def ws_send_def)
  qed
qed

text \<open>
  C10. No exception escapes the message handler of a client socket, and the handler leaves
  the registry, the socket's state of connection and every other socket as they were. For a
  message that is not JSON, or whose type is not one of \<open>subscribe\<close>, \<open>unsubscribe\<close> and
  \<open>ping\<close>, or whose handling throws, the handler sends exactly one \<open>error\<close> message to
  that client.
\<close>

theorem message_handler_safe:
  "fst (server_on_message E now r raw srv) = None \<and>
   wsClients (snd (server_on_message E now r raw srv)) = wsClients srv \<and>
   readyState (sockets (snd (server_on_message E now r raw srv)) r) = readyState (sockets srv r) \<and>
   (\<forall>r'. r' \<noteq> r \<longrightarrow> sockets (snd (server_on_message E now r raw srv)) r' = sockets srv r') \<and>
   ((\<exists>e. JSON_parse E raw = Inl e) \<or>
    (\<exists>v t. JSON_parse E raw = Inr v \<and> get_prop v ''type'' = Inr t \<and> t \<notin> known_types) \<or>
    (\<exists>v e w'. JSON_parse E raw = Inr v \<and> handleWebSocketMessage now (sockets srv r) v = (Some e, w'))
    \<longrightarrow> (\<exists>m. sent (sockets (snd (server_on_message E now r raw srv)) r) =
               sent (sockets srv r) @ [MsgError m]))"
proof -
  obtain x w' where c: "client_on_message E now (sockets srv r) raw = (x, w')"
    by (cases "client_on_message E now (sockets srv r) raw")
  have x: "x = None"
    using c by (auto simp: client_on_message_def split: sum.splits prod.splits option.splits)
  have rs: "readyState w' = readyState (sockets srv r)"
  proof (cases "JSON_parse E raw")
    case (Inl e)
    then show ?thesis using c by (auto simp: client_on_message_def ws_send_def)
  next
    case (Inr v)
    obtain y u where h: "handleWebSocketMessage now (sockets srv r) v = (y, u)"
      by (cases "handleWebSocketMessage now (sockets srv r) v")
    have "readyState u = readyState (sockets srv r)"
      using h
      by (auto simp: handleWebSocketMessage_def handleSubscription_def handleUnsubscription_def
          Let_def ws_send_def split: sum.splits if_splits option.splits)
    then show ?thesis
      using c Inr h by (cases y) (auto simp: client_on_message_def ws_send_def)
  qed
  have s: "server_on_message E now r raw srv = (None, srv\<lparr>sockets := (sockets srv)(r := w')\<rparr>)"
    using c x by (simp add: server_on_message_def)
  have err: "(\<exists>e. JSON_parse E raw = Inl e) \<or>
    (\<exists>v t. JSON_parse E raw = Inr v \<and> get_prop v ''type'' = Inr t \<and> t \<notin> known_types) \<or>
    (\<exists>v e w'. JSON_parse E raw = Inr v \<and> handleWebSocketMessage now (sockets srv r) v = (Some e, w'))
    \<Longrightarrow> \<exists>m. sent w' = sent (sockets srv r) @ [MsgError m]"
    using client_on_message_error_reply [of E raw now "sockets srv r"] c by auto
  show ?thesis
    unfolding s using rs err by auto
qed

theorem message_handler_safe_witness:
  "fst (server_on_message (parsing (JObj [(''type'', JStr ''subscribe'')])) ''2025-01-01T00:00:00.000Z''
          0 ''subscribe without data'' one_session) = None \<and>
   wsClients (snd (server_on_message (parsing (JObj [(''type'', JStr ''subscribe'')]))
          ''2025-01-01T00:00:00.000Z'' 0 ''subscribe without data'' one_session)) = [0] \<and>
   (\<exists>m. sent (sockets (snd (server_on_message (parsing (JObj [(''type'', JStr ''subscribe'')]))
          ''2025-01-01T00:00:00.000Z'' 0 ''subscribe without data'' one_session)) 0) = [MsgError m])"
proof -
  have p: "JSON_parse (parsing (JObj [(''type'', JStr ''subscribe'')])) ''subscribe without data'' =
      Inr (JObj [(''type'', JStr ''subscribe'')])"
    by (simp add: parsing_def)
  have h: "\<exists>e w'. handleWebSocketMessage ''2025-01-01T00:00:00.000Z'' (sockets one_session 0)
      (JObj [(''type'', JStr ''subscribe'')]) = (Some e, w')"
    by (simp add: handleWebSocketMessage_def handleSubscription_def)
  have o: "wsClients one_session = [0]" "sent (sockets one_session 0) = []"
    by (simp_all add: one_session_def new_ws_def)
  show ?thesis
    using message_handler_safe [of "parsing (JObj [(''type'', JStr ''subscribe'')])"
        "''2025-01-01T00:00:00.000Z''" 0 "''subscribe without data''" one_session] p h o
    by auto
qed

section \<open>The REST executor: signing\<close>

lemma map_of_set_header:
  "map_of (set_header k v hs) k' = (if k' = k then Some v else map_of hs k')"
proof -
  have "map_of (filter (\<lambda>p. fst p \<noteq> k) hs) k' = (if k' = k then None else map_of hs k')"
    by (induction hs) auto
  then show ?thesis
    by (auto simp: set_header_def map_add_def split: option.splits)
qed

lemma signature_header:
  "requiresAuth cfg \<noteq> Some False \<Longrightarrow>
   map_of (headers (sent_request E c cfg k)) ''PIONEX-SIGNATURE'' =
     Some (generateSignature E c (http_method cfg) (url cfg) (body cfg) (Date_now E k))"
  by (simp add: sent_request_def request_interceptor_def map_of_set_header)

text \<open>
  C3. An authenticated request carries the API key, the signature and the timestamp as
  headers. The signature is the hex HMAC-SHA256, under the secret key, of the upper-cased
  method, the path, the JSON text of the body (nothing when the request has no body) and the
  timestamp in milliseconds, concatenated. It depends on nothing but the method, the path,
  the body and the timestamp: two requests that agree on these carry the same signature.
\<close>

theorem request_signature:
  assumes "requiresAuth cfg \<noteq> Some False"
  shows "map_of (headers (sent_request E c cfg k)) ''PIONEX-KEY'' = Some (apiKey c) \<and>
         map_of (headers (sent_request E c cfg k)) ''PIONEX-TIMESTAMP'' =
           Some (string_of_int (Date_now E k)) \<and>
         map_of (headers (sent_request E c cfg k)) ''PIONEX-SIGNATURE'' =
           Some (hmac_sha256_hex E (secretKey c)
             (toUpperCase (http_method cfg) @ url cfg @
              (if truthy (body cfg) then JSON_stringify E (body cfg) else []) @
              string_of_int (Date_now E k))) \<and>
         (\<forall>cfg' k'. requiresAuth cfg' \<noteq> Some False \<and> http_method cfg' = http_method cfg \<and>
              url cfg' = url cfg \<and> body cfg' = body cfg \<and> Date_now E k' = Date_now E k \<longrightarrow>
            map_of (headers (sent_request E c cfg' k')) ''PIONEX-SIGNATURE'' =
            map_of (headers (sent_request E c cfg k)) ''PIONEX-SIGNATURE'')"
proof -
  have kt: "map_of (headers (sent_request E c cfg k)) ''PIONEX-KEY'' = Some (apiKey c)"
    "map_of (headers (sent_request E c cfg k)) ''PIONEX-TIMESTAMP'' = Some (string_of_int (Date_now E k))"
    using assms by (simp_all add: sent_request_def request_interceptor_def map_of_set_header)
  have sg: "map_of (headers (sent_request E c cfg k)) ''PIONEX-SIGNATURE'' =
           Some (hmac_sha256_hex E (secretKey c)
             (toUpperCase (http_method cfg) @ url cfg @
              (if truthy (body cfg) then JSON_stringify E (body cfg) else []) @
              string_of_int (Date_now E k)))"
    using signature_header [OF assms, of E c k]
    by (simp add: generateSignature_def canonical_message_def)
  have det: "\<forall>cfg' k'. requiresAuth cfg' \<noteq> Some False \<and> http_method cfg' = http_method cfg \<and>
              url cfg' = url cfg \<and> body cfg' = body cfg \<and> Date_now E k' = Date_now E k \<longrightarrow>
            map_of (headers (sent_request E c cfg' k')) ''PIONEX-SIGNATURE'' =
            map_of (headers (sent_request E c cfg k)) ''PIONEX-SIGNATURE''"
    using signature_header [OF assms, of E c k] by (simp add: signature_header)
  from kt sg det show ?thesis by blast
qed

theorem request_signature_witness:
  "map_of (headers (sent_request signing default_client cancel_order 0)) ''PIONEX-KEY'' = Some ''key'' \<and>
   map_of (headers (sent_request signing default_client cancel_order 0)) ''PIONEX-TIMESTAMP'' =
     Some ''1700000000000'' \<and>
   map_of (headers (sent_request signing default_client cancel_order 0)) ''PIONEX-SIGNATURE'' =
     Some ''hmac(secret,DELETE/v1/trade/orders/42<json>1700000000000)'' \<and>
   map_of (headers (sent_request signing default_client (cancel_order\<lparr>headers := []\<rparr>) 1))
       ''PIONEX-SIGNATURE'' =
     map_of (headers (sent_request signing default_client cancel_order 0)) ''PIONEX-SIGNATURE''"
proof -
  have a: "requiresAuth cancel_order \<noteq> Some False"
    by (simp add: cancel_order_def)
  have t: "string_of_int 1700000000000 = ''1700000000000''"
    by (simp add: string_of_int_def string_of_nat.simps digit_char_def)
  have u: "toUpperCase ''delete'' = ''DELETE''" by code_simp
  have e: "Date_now signing 0 = 1700000000000" "Date_now signing 1 = 1700000000000"
    "JSON_stringify signing = (\<lambda>v. ''<json>'')"
    "hmac_sha256_hex signing = (\<lambda>k m. ''hmac('' @ k @ '','' @ m @ '')'')"
    by (simp_all add: signing_def rejecting_def)
  have c: "apiKey default_client = ''key''" "secretKey default_client = ''secret''"
    by (simp_all add: default_client_def PionexClient_def)
  have f: "http_method cancel_order = ''delete''" "url cancel_order = ''/v1/trade/orders/42''"
    "truthy (body cancel_order)"
    by (simp_all add: cancel_order_def)
  note th = request_signature [OF a, of signing default_client 0]
  have m: "hmac_sha256_hex signing (secretKey default_client)
       (toUpperCase (http_method cancel_order) @ url cancel_order @
        (if truthy (body cancel_order) then JSON_stringify signing (body cancel_order) else []) @
        string_of_int (Date_now signing 0)) =
      ''hmac(secret,DELETE/v1/trade/orders/42<json>1700000000000)''"
    using f(3) by (simp add: e c f(1,2) t u)
  have r1: "map_of (headers (sent_request signing default_client cancel_order 0)) ''PIONEX-KEY'' = Some ''key''"
    using th c(1) by simp
  have r2: "map_of (headers (sent_request signing default_client cancel_order 0)) ''PIONEX-TIMESTAMP'' =
       Some ''1700000000000''"
    using th e(1) t by simp
  have r3: "map_of (headers (sent_request signing default_client cancel_order 0)) ''PIONEX-SIGNATURE'' =
       Some ''hmac(secret,DELETE/v1/trade/orders/42<json>1700000000000)''"
    using th m by simp
  have g: "requiresAuth (cancel_order\<lparr>headers := []\<rparr>) \<noteq> Some False \<and>
      http_method (cancel_order\<lparr>headers := []\<rparr>) = http_method cancel_order \<and>
      url (cancel_order\<lparr>headers := []\<rparr>) = url cancel_order \<and>
      body (cancel_order\<lparr>headers := []\<rparr>) = body cancel_order \<and>
      Date_now signing 1 = Date_now signing 0"
    using a e(1,2) by simp
  have r4: "map_of (headers (sent_request signing default_client (cancel_order\<lparr>headers := []\<rparr>) 1))
       ''PIONEX-SIGNATURE'' =
     map_of (headers (sent_request signing default_client cancel_order 0)) ''PIONEX-SIGNATURE''"
    using th g by blast
  from r1 r2 r3 r4 show ?thesis by blast
qed

end
